theory Spec2Isabelle
  imports Main "HOL-Library.AList" "HOL-Library.Sublist"
begin

section \<open>Data model\<close>

subsection \<open>JavaScript values\<close>

text \<open>
  The value a variable text evaluates to is a JavaScript value (\<^verbatim>\<open>unknown\<close> in the
  source). A JavaScript number is an IEEE-754 double; nothing below computes with one, so
  the payload of a number stays a type parameter \<open>'n\<close>. A field that is not set reads as
  \<^verbatim>\<open>undefined\<close>, so \<open>JsUndefined\<close> also stands for an absent \<^verbatim>\<open>value\<close>.
\<close>

datatype 'n JsValue =
    JsUndefined
  | JsNull
  | JsBoolean bool
  | JsNumber 'n
  | JsString string
  | JsArray "'n JsValue list"
  | JsObject "(string \<times> 'n JsValue) list"

text \<open>The \<^verbatim>\<open>typeof\<close> operator on the values above.\<close>

fun typeof :: "'n JsValue \<Rightarrow> string" where
  "typeof JsUndefined = ''undefined''"
| "typeof JsNull = ''object''"
| "typeof (JsBoolean b) = ''boolean''"
| "typeof (JsNumber n) = ''number''"
| "typeof (JsString s) = ''string''"
| "typeof (JsArray xs) = ''object''"
| "typeof (JsObject fs) = ''object''"

subsection \<open>Variables, props, instances\<close>

text \<open>
  \<^verbatim>\<open>Extract<DataSource, { type: "variable" }>["value"]\<close>: the tagged value of a value
  variable, with the four tags \<^verbatim>\<open>saveVariable\<close> writes.
\<close>

datatype 'n VariableValue =
    JsonValue "'n JsValue"
  | StringValue string
  | NumberValue 'n
  | BooleanValue bool

text \<open>
  \<^verbatim>\<open>DataSource\<close> is a union discriminated by \<^verbatim>\<open>type\<close>: \<^verbatim>\<open>"variable"\<close> (the value
  kind of the specification), \<^verbatim>\<open>"parameter"\<close> and \<^verbatim>\<open>"resource"\<close>.
  \<^verbatim>\<open>scopeInstanceId\<close> is optional (the source tests it against \<^verbatim>\<open>undefined\<close>).
\<close>

datatype 'n DataSource =
    Variable (id': string) (scopeInstanceId: "string option") (name': string)
      (value': "'n VariableValue")
  | Parameter (id': string) (scopeInstanceId: "string option") (name': string)
  | Resource (id': string) (scopeInstanceId: "string option") (name': string)
      (resourceId: string)

fun type' :: "'n DataSource \<Rightarrow> string" where
  "type' (Variable i s n v) = ''variable''"
| "type' (Parameter i s n) = ''parameter''"
| "type' (Resource i s n r) = ''resource''"

text \<open>
  Of a prop the code below reads \<^verbatim>\<open>type\<close> and \<^verbatim>\<open>value\<close> only: an expression prop
  holds one text, an action prop a list of steps with a \<^verbatim>\<open>code\<close> text each, and every
  other kind is a literal.
\<close>

record ActionStep =
  code :: string

datatype Prop =
    Literal
  | Expression string
  | Action "ActionStep list"

text \<open>Of an instance only \<^verbatim>\<open>component\<close> is read.\<close>

record Instance =
  component :: string

subsection \<open>Collections\<close>

text \<open>
  A JavaScript \<^verbatim>\<open>Map\<close> iterates in insertion order, \<^verbatim>\<open>set\<close> replaces the value of a
  present key in place and appends a new key, \<^verbatim>\<open>delete\<close> removes the key: an association
  list with \<open>map_of\<close> for \<^verbatim>\<open>get\<close>, \<open>AList.update\<close> for \<^verbatim>\<open>set\<close>, \<open>AList.delete\<close> for
  \<^verbatim>\<open>delete\<close> and \<open>map snd\<close> for \<^verbatim>\<open>values()\<close>.
\<close>

type_synonym ('k, 'v) Map = "('k \<times> 'v) list"

text \<open>
  The nano-stores the panel reads and writes: \<^verbatim>\<open>$dataSources\<close>, \<^verbatim>\<open>$resources\<close>,
  \<^verbatim>\<open>$props\<close>, \<^verbatim>\<open>$instances\<close> and \<^verbatim>\<open>$selectedInstanceSelector\<close>. The payload \<open>'r\<close> of
  a resource is opaque here. The selector is \<open>None\<close> when no instance is selected;
  otherwise it lists instance ids from the target instance up to the root.
\<close>

record ('n, 'r) Stores =
  dataSources_store :: "(string, 'n DataSource) Map"
  resources_store :: "(string, 'r) Map"
  props_store :: "(string, Prop) Map"
  instances_store :: "(string, Instance) Map"
  selectedInstanceSelector_store :: "string list option"

text \<open>
  What a click handler does besides writing to the stores is the list of calls it makes on
  the panel, in order: the setters of the error states, which show an error to the user,
  and \<^verbatim>\<open>onCancel\<close>, which closes the view.
\<close>

datatype PanelCall =
    SetNameErrors "string list"
  | SetValueErrors "string list"
  | OnCancel

section \<open>Scope resolver: \<^verbatim>\<open>$selectedInstanceVariables\<close>\<close>

text \<open>\<^verbatim>\<open>const [instanceId] = instanceSelector\<close>: \<^verbatim>\<open>undefined\<close> on an empty array.\<close>

definition firstInstanceId :: "string list \<Rightarrow> string option" where
  "firstInstanceId instanceSelector =
     (case instanceSelector of [] \<Rightarrow> None | instanceId # _ \<Rightarrow> Some instanceId)"

text \<open>\<^verbatim>\<open>instances.get(instanceId)?.component\<close>, with \<open>None\<close> for \<^verbatim>\<open>undefined\<close>.\<close>

definition componentOf :: "(string, Instance) Map \<Rightarrow> string option \<Rightarrow> string option" where
  "componentOf instances instanceId =
     (case instanceId of
        None \<Rightarrow> None
      | Some i \<Rightarrow> (case map_of instances i of None \<Rightarrow> None | Some inst \<Rightarrow> Some (component inst)))"

text \<open>
  The loop over \<^verbatim>\<open>dataSources.values()\<close>, with \<^verbatim>\<open>matchedVariables\<close> as accumulator.
  \<^verbatim>\<open>collectionComponent\<close> is a constant of \<^verbatim>\<open>@webstudio-is/react-sdk\<close> and a parameter
  here.
\<close>

fun matchVariables ::
  "string \<Rightarrow> string list \<Rightarrow> (string, Instance) Map \<Rightarrow> 'n DataSource list \<Rightarrow>
   'n DataSource list \<Rightarrow> 'n DataSource list" where
  "matchVariables collectionComponent instanceSelector instances [] matchedVariables =
     matchedVariables"
| "matchVariables collectionComponent instanceSelector instances (dataSource # rest)
     matchedVariables =
     (let instanceId = firstInstanceId instanceSelector in
      if type' dataSource = ''parameter'' \<and>
         instanceId = scopeInstanceId dataSource \<and>
         componentOf instances instanceId = Some collectionComponent
      then matchVariables collectionComponent instanceSelector instances rest matchedVariables
      else if (case scopeInstanceId dataSource of
                 None \<Rightarrow> False
               | Some scope \<Rightarrow> scope \<in> set instanceSelector)
      then matchVariables collectionComponent instanceSelector instances rest
             (matchedVariables @ [dataSource])
      else matchVariables collectionComponent instanceSelector instances rest matchedVariables)"

definition selectedInstanceVariables ::
  "string \<Rightarrow> string list option \<Rightarrow> (string, 'n DataSource) Map \<Rightarrow>
   (string, Instance) Map \<Rightarrow> 'n DataSource list" where
  "selectedInstanceVariables collectionComponent instanceSelector dataSources instances =
     (case instanceSelector of
        None \<Rightarrow> []
      | Some selector \<Rightarrow>
          matchVariables collectionComponent selector instances (map snd dataSources) [])"

text \<open>
  The rule of the specification (section 4.2), in its words: a variable is visible iff its
  \<^verbatim>\<open>scopeInstanceId\<close> appears anywhere in the selector, except a parameter declared at
  the target instance when that instance is the collection component.
\<close>

definition visibleAt ::
  "string \<Rightarrow> string list \<Rightarrow> (string, Instance) Map \<Rightarrow> 'n DataSource \<Rightarrow> bool" where
  "visibleAt collectionComponent selector instances v =
     ((case scopeInstanceId v of None \<Rightarrow> False | Some scope \<Rightarrow> scope \<in> set selector) \<and>
      \<not> (type' v = ''parameter'' \<and>
         (case selector of
            [] \<Rightarrow> False
          | target # ancestors \<Rightarrow>
              scopeInstanceId v = Some target \<and>
              componentOf instances (Some target) = Some collectionComponent)))"

section \<open>Collaborators that are parameters\<close>

text \<open>
  \<^verbatim>\<open>validateExpression\<close> and \<^verbatim>\<open>decodeDataSourceVariable\<close> belong to
  \<^verbatim>\<open>@webstudio-is/react-sdk\<close> and \<^verbatim>\<open>eval\<close> to the JavaScript runtime; none is among the
  sources at hand, so the functions below take them as parameters.

  \<^verbatim>\<open>validateExpression(code, options)\<close> hands the identifiers it meets to
  \<^verbatim>\<open>options.transformIdentifier\<close>, one call each, and ends by returning the validated
  code or by throwing. Every caller modelled here passes a callback that records the
  identifier and returns it unchanged, so what the caller observes of one call is the list
  of identifiers handed over until then, in order, and the outcome: \<open>Inl\<close> the message of
  the error thrown, \<open>Inr\<close> the code returned. \<^verbatim>\<open>effectful\<close> and \<^verbatim>\<open>optional\<close> default to
  \<^verbatim>\<open>false\<close>.
\<close>

record Options =
  effectful :: bool
  optional :: bool

type_synonym Validator = "Options \<Rightarrow> string \<Rightarrow> string list \<times> (string + string)"

text \<open>\<^verbatim>\<open>decodeDataSourceVariable(identifier)\<close>: the variable id, or \<^verbatim>\<open>undefined\<close>.\<close>

type_synonym Decoder = "string \<Rightarrow> string option"

text \<open>\<^verbatim>\<open>eval(text)\<close>: \<open>Inl\<close> the message of the error thrown, \<open>Inr\<close> the value.\<close>

type_synonym 'n Evaluator = "string \<Rightarrow> string + 'n JsValue"

text \<open>
  Modelled from the spec: \<^verbatim>\<open>serverSyncStore.createTransaction\<close> (\<^verbatim>\<open>~/shared/sync\<close>) is
  not among the sources. Section 4.5: the mutator is given mutable views limited to exactly
  the named collections, performs its insert, update and delete operations on them, and the
  coordinator commits all of them as one unit. One definition per list of containers the
  panel names; a mutator is a function from the views to the views it leaves behind.
\<close>

definition createTransaction_dataSources ::
  "((string, 'n DataSource) Map \<Rightarrow> (string, 'n DataSource) Map) \<Rightarrow>
   ('n, 'r) Stores \<Rightarrow> ('n, 'r) Stores" where
  "createTransaction_dataSources mutator stores =
     stores\<lparr>dataSources_store := mutator (dataSources_store stores)\<rparr>"

definition createTransaction_dataSources_resources ::
  "((string, 'n DataSource) Map \<Rightarrow> (string, 'r) Map \<Rightarrow>
    (string, 'n DataSource) Map \<times> (string, 'r) Map) \<Rightarrow>
   ('n, 'r) Stores \<Rightarrow> ('n, 'r) Stores" where
  "createTransaction_dataSources_resources mutator stores =
     (case mutator (dataSources_store stores) (resources_store stores) of
        (dataSources, resources) \<Rightarrow>
          stores\<lparr>dataSources_store := dataSources, resources_store := resources\<rparr>)"

section \<open>Dependency tracker: \<^verbatim>\<open>$usedVariables\<close>\<close>

text \<open>The body of \<^verbatim>\<open>transformIdentifier\<close> in \<^verbatim>\<open>$usedVariables\<close>.\<close>

definition addUsedVariable :: "Decoder \<Rightarrow> string set \<Rightarrow> string \<Rightarrow> string set" where
  "addUsedVariable decodeDataSourceVariable usedVariables identifier =
     (case decodeDataSourceVariable identifier of
        None \<Rightarrow> usedVariables
      | Some variableId \<Rightarrow> insert variableId usedVariables)"

text \<open>
  \<^verbatim>\<open>try { validateExpression(code, {..., transformIdentifier}) } catch { }\<close>: the callback
  has added to the set by the time an error is thrown, and the empty \<^verbatim>\<open>catch\<close> block
  takes nothing back.
\<close>

definition validateCollecting ::
  "Validator \<Rightarrow> Decoder \<Rightarrow> Options \<Rightarrow> string set \<Rightarrow> string \<Rightarrow> string set" where
  "validateCollecting validateExpression decodeDataSourceVariable options usedVariables text =
     foldl (addUsedVariable decodeDataSourceVariable) usedVariables
       (fst (validateExpression options text))"

text \<open>The body of the loop over \<^verbatim>\<open>props.values()\<close>: its two \<^verbatim>\<open>if\<close> statements.\<close>

definition scanProp :: "Validator \<Rightarrow> Decoder \<Rightarrow> string set \<Rightarrow> Prop \<Rightarrow> string set" where
  "scanProp validateExpression decodeDataSourceVariable usedVariables prop =
     (let usedVariables =
            (case prop of
               Expression text \<Rightarrow>
                 validateCollecting validateExpression decodeDataSourceVariable
                   \<lparr>effectful = False, optional = False\<rparr> usedVariables text
             | _ \<Rightarrow> usedVariables)
      in case prop of
           Action steps \<Rightarrow>
             foldl (\<lambda>used step.
                      validateCollecting validateExpression decodeDataSourceVariable
                        \<lparr>effectful = True, optional = False\<rparr> used (code step))
               usedVariables steps
         | _ \<Rightarrow> usedVariables)"

definition usedVariables :: "Validator \<Rightarrow> Decoder \<Rightarrow> (string, Prop) Map \<Rightarrow> string set" where
  "usedVariables validateExpression decodeDataSourceVariable props =
     foldl (scanProp validateExpression decodeDataSourceVariable) {} (map snd props)"

text \<open>
  The set of the specification (section 4.4), in its words: per prop, the variable ids
  decoded from the identifiers found by validating the text of an expression prop, and each
  step of an action prop with \<^verbatim>\<open>effectful = true\<close>.
\<close>

definition decodedIds :: "Decoder \<Rightarrow> string list \<Rightarrow> string set" where
  "decodedIds decodeDataSourceVariable identifiers =
     set (List.map_filter decodeDataSourceVariable identifiers)"

definition propReferences :: "Validator \<Rightarrow> Decoder \<Rightarrow> Prop \<Rightarrow> string set" where
  "propReferences validateExpression decodeDataSourceVariable prop =
     (case prop of
        Literal \<Rightarrow> {}
      | Expression text \<Rightarrow>
          decodedIds decodeDataSourceVariable
            (fst (validateExpression \<lparr>effectful = False, optional = False\<rparr> text))
      | Action steps \<Rightarrow>
          \<Union> (set (map (\<lambda>step.
                   decodedIds decodeDataSourceVariable
                     (fst (validateExpression \<lparr>effectful = True, optional = False\<rparr> (code step))))
                 steps)))"

section \<open>Deleting and renaming a variable\<close>

definition deleteVariable :: "'n DataSource \<Rightarrow> ('n, 'r) Stores \<Rightarrow> ('n, 'r) Stores" where
  "deleteVariable variable =
     createTransaction_dataSources (\<lambda>dataSources. AList.delete (id' variable) dataSources)"

text \<open>The \<^verbatim>\<open>deletable\<close> property \<^verbatim>\<open>ListPanel\<close> computes for each list item.\<close>

definition deletable :: "string set \<Rightarrow> 'n DataSource \<Rightarrow> bool" where
  "deletable used variable = (type' variable = ''variable'' \<and> (id' variable \<in> used) = False)"

text \<open>
  The delete button of \<^verbatim>\<open>ListItem\<close>: \<^verbatim>\<open>disabled={deletable === false}\<close> and
  \<^verbatim>\<open>onClick={() => deleteVariable(variable)}\<close>. A disabled button does not run its
  handler, and the handler calls \<^verbatim>\<open>deleteVariable\<close> and nothing of the panel.
\<close>

definition ListItem_delete_onClick ::
  "Validator \<Rightarrow> Decoder \<Rightarrow> 'n DataSource \<Rightarrow> ('n, 'r) Stores \<Rightarrow>
   PanelCall list \<times> ('n, 'r) Stores" where
  "ListItem_delete_onClick validateExpression decodeDataSourceVariable variable stores =
     (if deletable (usedVariables validateExpression decodeDataSourceVariable (props_store stores))
           variable = False
      then ([], stores)
      else ([], deleteVariable variable stores))"

text \<open>\<^verbatim>\<open>{ ...variable, name }\<close>.\<close>

fun withName :: "'n DataSource \<Rightarrow> string \<Rightarrow> 'n DataSource" where
  "withName (Variable i s n v) name = Variable i s name v"
| "withName (Parameter i s n) name = Parameter i s name"
| "withName (Resource i s n r) name = Resource i s name r"

definition renameVariable ::
  "'n DataSource \<Rightarrow> string \<Rightarrow> ('n, 'r) Stores \<Rightarrow> ('n, 'r) Stores" where
  "renameVariable variable name =
     createTransaction_dataSources
       (\<lambda>dataSources. AList.update (id' variable) (withName variable name) dataSources)"

section \<open>Parsing and saving a value variable\<close>

text \<open>
  \<^verbatim>\<open>new Set<string>()\<close> with \<^verbatim>\<open>add\<close>, read back by \<^verbatim>\<open>Array.from\<close>: the elements in the
  order they were first added.
\<close>

definition setAdd :: "string list \<Rightarrow> string \<Rightarrow> string list" where
  "setAdd ids identifier = (if identifier \<in> set ids then ids else ids @ [identifier])"

text \<open>\<^verbatim>\<open>Array.prototype.join\<close> on strings.\<close>

fun join :: "string \<Rightarrow> string list \<Rightarrow> string" where
  "join separator [] = []"
| "join separator [x] = x"
| "join separator (x # y # ys) = x @ separator @ join separator (y # ys)"

text \<open>The \<^verbatim>\<open>result\<close> object of \<^verbatim>\<open>parseVariableValue\<close>: \<^verbatim>\<open>{ value?: unknown; error?: string }\<close>.\<close>

record 'n Result =
  result_value :: "'n JsValue"
  result_error :: "string option"

definition parseVariableValue :: "Validator \<Rightarrow> 'n Evaluator \<Rightarrow> string \<Rightarrow> 'n Result" where
  "parseVariableValue validateExpression eval text =
     (case validateExpression \<lparr>effectful = False, optional = True\<rparr> text of
        (identifiers, Inl message) \<Rightarrow>
          \<lparr>result_value = JsUndefined, result_error = Some message\<rparr>
      | (identifiers, Inr validated) \<Rightarrow>
          (let ids = foldl setAdd [] identifiers in
           if length ids = 0
           then (case eval (''('' @ validated @ '')'') of
                   Inr v \<Rightarrow> \<lparr>result_value = v, result_error = None\<rparr>
                 | Inl message \<Rightarrow>
                     \<lparr>result_value = JsUndefined,
                      result_error = Some (''Parse Error: '' @ message)\<rparr>)
           else (let idsList = join '', '' ids in
                 \<lparr>result_value = JsUndefined,
                  result_error =
                    Some (''Cannot use variables '' @ idsList @ '' as variable value'')\<rparr>)))"

text \<open>
  The mutator of the transaction in \<^verbatim>\<open>saveVariable\<close>, on the views of \<^verbatim>\<open>$dataSources\<close>
  and \<^verbatim>\<open>$resources\<close>.
\<close>

definition saveVariableMutator ::
  "'n DataSource option \<Rightarrow> string \<Rightarrow> string option \<Rightarrow> string \<Rightarrow> 'n JsValue \<Rightarrow>
   (string, 'n DataSource) Map \<Rightarrow> (string, 'r) Map \<Rightarrow>
   (string, 'n DataSource) Map \<times> (string, 'r) Map" where
  "saveVariableMutator dataSource dataSourceId instanceId name v dataSources resources =
     (let resources =
            (case dataSource of
               Some (Resource i s n r) \<Rightarrow> AList.delete r resources
             | _ \<Rightarrow> resources);
          variableValue = JsonValue v;
          variableValue = (case v of JsString s \<Rightarrow> StringValue s | _ \<Rightarrow> variableValue);
          variableValue = (case v of JsNumber n \<Rightarrow> NumberValue n | _ \<Rightarrow> variableValue);
          variableValue = (case v of JsBoolean b \<Rightarrow> BooleanValue b | _ \<Rightarrow> variableValue);
          scope =
            (case map_of dataSources dataSourceId of
               None \<Rightarrow> instanceId
             | Some existing \<Rightarrow>
                 (case scopeInstanceId existing of
                    None \<Rightarrow> instanceId
                  | Some scope \<Rightarrow> Some scope))
      in (AList.update dataSourceId (Variable dataSourceId scope name variableValue) dataSources,
          resources))"

text \<open>
  \<^verbatim>\<open>saveVariable\<close> returns \<^verbatim>\<open>undefined\<close> (\<open>None\<close>) or \<^verbatim>\<open>{ error }\<close> (\<open>Some error\<close>).
  \<^verbatim>\<open>nanoid()\<close> draws a fresh id; the id drawn is the parameter \<open>nanoid\<close>.
\<close>

definition saveVariable ::
  "Validator \<Rightarrow> 'n Evaluator \<Rightarrow> string \<Rightarrow> 'n DataSource option \<Rightarrow> string \<Rightarrow> string \<Rightarrow>
   ('n, 'r) Stores \<Rightarrow> string option \<times> ('n, 'r) Stores" where
  "saveVariable validateExpression eval nanoid dataSource name valueString stores =
     (let dataSourceId = (case dataSource of None \<Rightarrow> nanoid | Some d \<Rightarrow> id' d);
          result = parseVariableValue validateExpression eval valueString
      in case result_error result of
           Some error \<Rightarrow> (Some error, stores)
         | None \<Rightarrow>
             (case selectedInstanceSelector_store stores of
                None \<Rightarrow> (None, stores)
              | Some instanceSelector \<Rightarrow>
                  (None,
                   createTransaction_dataSources_resources
                     (saveVariableMutator dataSource dataSourceId
                        (firstInstanceId instanceSelector) name (result_value result))
                     stores)))"

text \<open>
  Modelled from the spec: what the observers of the stores see of a transaction
  (\<^verbatim>\<open>serverSyncStore.createTransaction\<close> is not among the sources). Sections 4.5 and 7:
  the coordinator commits all mutations of the mutator as one unit or none, and when a step
  of the mutator fails the whole batch is discarded and the collections are left exactly
  as before. Section 5: derived computations are recomputed only after the transaction has
  run to completion. Here a mutator returns the views it leaves behind, or \<open>None\<close> when one
  of its steps fails; the result is the stores after the call and the list of the states
  published to observers, in order: one state for a committed transaction, none for a
  discarded one.
\<close>

definition createTransaction_observed ::
  "((string, 'n DataSource) Map \<Rightarrow> (string, 'r) Map \<Rightarrow>
    ((string, 'n DataSource) Map \<times> (string, 'r) Map) option) \<Rightarrow>
   ('n, 'r) Stores \<Rightarrow> ('n, 'r) Stores \<times> ('n, 'r) Stores list" where
  "createTransaction_observed mutator stores =
     (case mutator (dataSources_store stores) (resources_store stores) of
        None \<Rightarrow> (stores, [])
      | Some (dataSources, resources) \<Rightarrow>
          (let committed =
                 stores\<lparr>dataSources_store := dataSources, resources_store := resources\<rparr>
           in (committed, [committed])))"

text \<open>
  \<^verbatim>\<open>saveVariable\<close> once more, with the states it publishes: its result, the stores it
  leaves and the states observers saw on the way. Neither \<^verbatim>\<open>resources.delete\<close> nor
  \<^verbatim>\<open>dataSources.set\<close> can fail, so the mutator always returns its views.
\<close>

definition saveVariable_observed ::
  "Validator \<Rightarrow> 'n Evaluator \<Rightarrow> string \<Rightarrow> 'n DataSource option \<Rightarrow> string \<Rightarrow> string \<Rightarrow>
   ('n, 'r) Stores \<Rightarrow> string option \<times> ('n, 'r) Stores \<times> ('n, 'r) Stores list" where
  "saveVariable_observed validateExpression eval nanoid dataSource name valueString stores =
     (let dataSourceId = (case dataSource of None \<Rightarrow> nanoid | Some d \<Rightarrow> id' d);
          result = parseVariableValue validateExpression eval valueString
      in case result_error result of
           Some error \<Rightarrow> (Some error, stores, [])
         | None \<Rightarrow>
             (case selectedInstanceSelector_store stores of
                None \<Rightarrow> (None, stores, [])
              | Some instanceSelector \<Rightarrow>
                  (case createTransaction_observed
                          (\<lambda>dataSources resources.
                             Some (saveVariableMutator dataSource dataSourceId
                                     (firstInstanceId instanceSelector) name
                                     (result_value result) dataSources resources))
                          stores of
                     (stores, published) \<Rightarrow> (None, stores, published))))"

text \<open>
  The \<^verbatim>\<open>onClick\<close> handler of the Save button in \<^verbatim>\<open>VariableValuePanel\<close>, with the
  panel's \<^verbatim>\<open>name\<close> and \<^verbatim>\<open>value\<close> states as arguments.
\<close>

definition Save_onClick ::
  "Validator \<Rightarrow> 'n Evaluator \<Rightarrow> string \<Rightarrow> 'n DataSource option \<Rightarrow> string \<Rightarrow> string \<Rightarrow>
   ('n, 'r) Stores \<Rightarrow> PanelCall list \<times> ('n, 'r) Stores" where
  "Save_onClick validateExpression eval nanoid variable name valueText stores =
     (if length name = 0
      then ([SetNameErrors [''Variable name is required'']], stores)
      else
        (let (calls, stores) =
               (case variable of
                  Some (Parameter i s n) \<Rightarrow>
                    ([OnCancel], renameVariable (Parameter i s n) name stores)
                | _ \<Rightarrow> ([], stores));
             (result, stores) =
               saveVariable validateExpression eval nanoid variable name valueText stores
         in case result of
              Some error \<Rightarrow> (calls @ [SetValueErrors [error]], stores)
            | None \<Rightarrow> (calls @ [OnCancel], stores)))"

section \<open>Instances of the parameters for the examples\<close>

text \<open>
  Modelled from the spec: the identifier codec (\<^verbatim>\<open>encodeDataSourceVariable\<close> and
  \<^verbatim>\<open>decodeDataSourceVariable\<close> of \<^verbatim>\<open>@webstudio-is/react-sdk\<close>) is not among the sources.
  Section 4.1 asks that decoding an encoded id gives the id back and that decoding any
  other identifier gives none; section 9 leaves the scheme open. The scheme below reserves
  a prefix.
\<close>

definition encodeDataSourceVariable_spec :: "string \<Rightarrow> string" where
  "encodeDataSourceVariable_spec variableId = ''$ws$dataSource$'' @ variableId"

definition decodeDataSourceVariable_spec :: Decoder where
  "decodeDataSourceVariable_spec identifier =
     (if prefix ''$ws$dataSource$'' identifier
      then Some (drop (length ''$ws$dataSource$'') identifier)
      else None)"

text \<open>
  Modelled from the spec: \<^verbatim>\<open>validateExpression\<close> (\<^verbatim>\<open>@webstudio-is/react-sdk\<close>) is not
  among the sources. The instance fixes it on the texts the specification names: the
  literals \<^verbatim>\<open>0\<close>, \<^verbatim>\<open>{}\<close> and \<^verbatim>\<open>""\<close> are valid and hold no identifier (section 4.3), in
  \<^verbatim>\<open>a + 1\<close> the identifier \<^verbatim>\<open>a\<close> is met (section 8), and the encoded identifier of the
  variable \<^verbatim>\<open>count\<close> is a bare identifier (section 8). An assignment is disallowed
  outside actions (section 4.3): in the text made of that identifier and \<^verbatim>\<open> + (b = 1)\<close>
  the identifier has been handed over by the time the assignment is met and rejected;
  inside an action the assignment is permitted. Every other text stands for a malformed
  one, rejected by the parser.
\<close>

definition validateExpression_spec :: Validator where
  \<open>validateExpression_spec options text =
     (if text = ''0'' \<or> text = ''{}'' \<or> text = ''""'' then ([], Inr text)
      else if text = ''a + 1'' then ([''a''], Inr text)
      else if text = encodeDataSourceVariable_spec ''count'' then ([text], Inr text)
      else if text = encodeDataSourceVariable_spec ''count'' @ '' + (b = 1)''
      then (if effectful options
            then ([encodeDataSourceVariable_spec ''count'', ''b''], Inr text)
            else ([encodeDataSourceVariable_spec ''count''],
                  Inl ''Assignment is supported only inside actions''))
      else ([], Inl ''Unexpected token''))\<close>

text \<open>
  Modelled from the spec: JavaScript's \<^verbatim>\<open>eval\<close> is the language runtime and not among
  the sources. The instance fixes it on the texts of the examples (section 8: the text
  \<^verbatim>\<open>0\<close> gives the number 0, the text \<^verbatim>\<open>{}\<close> an empty structured-data literal and not
  an empty block): a parenthesised literal evaluates to the literal, \<^verbatim>\<open>({})\<close> to an
  empty object, and the bare \<^verbatim>\<open>{}\<close> is an empty block, which evaluates to
  \<^verbatim>\<open>undefined\<close>. Numbers are integers in the examples.
\<close>

definition eval_spec :: "int Evaluator" where
  \<open>eval_spec text =
     (if text = ''(0)'' then Inr (JsNumber 0)
      else if text = ''({})'' then Inr (JsObject [])
      else if text = ''("")'' then Inr (JsString [])
      else if text = ''{}'' then Inr JsUndefined
      else Inl ''Unexpected token'')\<close>

section \<open>The entry a save writes, in the words of the specification\<close>

text \<open>The value of a variable as the specification classifies it by runtime type.\<close>

definition tagByTypeof :: "'n JsValue \<Rightarrow> 'n VariableValue" where
  "tagByTypeof v =
     (case v of
        JsString s \<Rightarrow> StringValue s
      | JsNumber n \<Rightarrow> NumberValue n
      | JsBoolean b \<Rightarrow> BooleanValue b
      | _ \<Rightarrow> JsonValue v)"

text \<open>
  \<^verbatim>\<open>dataSources.get(dataSourceId)?.scopeInstanceId ?? instanceId\<close>: the scope a saved
  variable keeps or receives.
\<close>

definition savedScope ::
  "(string, 'n DataSource) Map \<Rightarrow> string \<Rightarrow> string list \<Rightarrow> string option" where
  "savedScope dataSources dataSourceId instanceSelector =
     (case map_of dataSources dataSourceId of
        None \<Rightarrow> firstInstanceId instanceSelector
      | Some existing \<Rightarrow>
          (case scopeInstanceId existing of
             None \<Rightarrow> firstInstanceId instanceSelector
           | Some scope \<Rightarrow> Some scope))"

section \<open>Scope resolver: properties\<close>

lemma matchVariables_filter:
  "matchVariables cc selector instances vs matched =
     matched @ filter (visibleAt cc selector instances) vs"
proof (induction vs arbitrary: matched)
  case Nil
  show ?case by simp
next
  case (Cons v vs)
  show ?case
  proof (cases selector)
    case Nil
    then show ?thesis
      using Cons.IH
      by (simp add: visibleAt_def firstInstanceId_def componentOf_def split: option.splits)
  next
    case (Cons target ancestors)
    then show ?thesis
      using Cons.IH
      by (auto simp: visibleAt_def firstInstanceId_def Let_def split: option.splits)
  qed
qed

lemma selectedInstanceVariables_filter:
  "selectedInstanceVariables cc (Some selector) dataSources instances =
     filter (visibleAt cc selector instances) (map snd dataSources)"
  by (simp add: selectedInstanceVariables_def matchVariables_filter)

text \<open>
  C2. For every selector (target first) and every variable collection, the visible
  variables are exactly the variables of the collection whose \<^verbatim>\<open>scopeInstanceId\<close> appears
  anywhere in the selector, except that a parameter whose \<^verbatim>\<open>scopeInstanceId\<close> is the
  target instance is left out when the target's component is the collection component.
  The list keeps the order of the collection.
\<close>

theorem C2_visible_variables:
  "set (selectedInstanceVariables cc (Some selector) dataSources instances) =
     {v. v \<in> snd ` set dataSources \<and> visibleAt cc selector instances v} \<and>
   selectedInstanceVariables cc (Some selector) dataSources instances =
     filter (visibleAt cc selector instances) (map snd dataSources)"
  by (auto simp: selectedInstanceVariables_filter)

theorem C2_visible_variables_witness:
  "set (selectedInstanceVariables ''ws:collection'' (Some [''list'', ''body''])
          [(''a'', Variable ''a'' (Some ''body'') ''title'' (NumberValue (1::int))),
           (''b'', Parameter ''b'' (Some ''list'') ''item''),
           (''c'', Resource ''c'' (Some ''other'') ''feed'' ''r1''),
           (''d'', Parameter ''d'' (Some ''body'') ''page'')]
          [(''list'', \<lparr>component = ''ws:collection''\<rparr>), (''body'', \<lparr>component = ''Body''\<rparr>)]) =
     {Variable ''a'' (Some ''body'') ''title'' (NumberValue 1),
      Parameter ''d'' (Some ''body'') ''page''}"
  using C2_visible_variables [of "''ws:collection''" "[''list'', ''body'']"
      "[(''a'', Variable ''a'' (Some ''body'') ''title'' (NumberValue (1::int))),
        (''b'', Parameter ''b'' (Some ''list'') ''item''),
        (''c'', Resource ''c'' (Some ''other'') ''feed'' ''r1''),
        (''d'', Parameter ''d'' (Some ''body'') ''page'')]"
      "[(''list'', \<lparr>component = ''ws:collection''\<rparr>), (''body'', \<lparr>component = ''Body''\<rparr>)]"]
  by (simp add: visibleAt_def componentOf_def)

text \<open>
  C9. Whatever the selector, a variable whose \<^verbatim>\<open>scopeInstanceId\<close> is undefined is never
  among the visible variables.
\<close>

theorem C9_undefined_scope_never_visible:
  "scopeInstanceId v = None \<Longrightarrow>
   v \<notin> set (selectedInstanceVariables cc instanceSelector dataSources instances)"
  by (cases instanceSelector)
     (auto simp: selectedInstanceVariables_def matchVariables_filter visibleAt_def)

theorem C9_undefined_scope_never_visible_witness:
  "scopeInstanceId (Variable ''a'' None ''title'' (NumberValue (1::int))) = None \<and>
   Variable ''a'' None ''title'' (NumberValue (1::int)) \<notin>
     set (selectedInstanceVariables ''ws:collection'' (Some [''list'', ''body''])
            [(''a'', Variable ''a'' None ''title'' (NumberValue 1)),
             (''b'', Parameter ''b'' (Some ''body'') ''item'')]
            [(''list'', \<lparr>component = ''ws:collection''\<rparr>)])"
  using C9_undefined_scope_never_visible
      [of "Variable ''a'' None ''title'' (NumberValue (1::int))" "''ws:collection''"
          "Some [''list'', ''body'']"
          "[(''a'', Variable ''a'' None ''title'' (NumberValue 1)),
            (''b'', Parameter ''b'' (Some ''body'') ''item'')]"
          "[(''list'', \<lparr>component = ''ws:collection''\<rparr>)]"]
  by simp

section \<open>Dependency tracker: properties\<close>

lemma foldl_addUsedVariable:
  "foldl (addUsedVariable D) U identifiers = U \<union> decodedIds D identifiers"
  by (induction identifiers arbitrary: U)
     (auto simp: addUsedVariable_def decodedIds_def split: option.splits)

lemma validateCollecting_union:
  "validateCollecting V D options U text = U \<union> decodedIds D (fst (V options text))"
  by (simp add: validateCollecting_def foldl_addUsedVariable)

lemma foldl_union:
  "foldl (\<lambda>used step. used \<union> f step) U steps = U \<union> \<Union> (set (map f steps))"
  by (induction steps arbitrary: U) auto

lemma scanProp_union: "scanProp V D U p = U \<union> propReferences V D p"
  by (cases p)
     (simp_all add: scanProp_def propReferences_def validateCollecting_union foldl_union)

lemma foldl_scanProp_union:
  "foldl (scanProp V D) U ps = U \<union> (\<Union>p \<in> set ps. propReferences V D p)"
  by (induction ps arbitrary: U) (auto simp: scanProp_union)

lemma usedVariables_union:
  "usedVariables V D props = (\<Union>p \<in> snd ` set props. propReferences V D p)"
  by (simp add: usedVariables_def foldl_scanProp_union)

lemma usedVariables_expression:
  "usedVariables V D (before @ [(key, Expression text)] @ after) =
     usedVariables V D before \<union>
     decodedIds D (fst (V \<lparr>effectful = False, optional = False\<rparr> text)) \<union>
     usedVariables V D after"
  by (auto simp: usedVariables_union propReferences_def)

lemma usedVariables_action_step:
  "usedVariables V D (before @ [(key, Action (steps @ [step] @ steps'))] @ after) =
     usedVariables V D (before @ [(key, Action (steps @ steps'))] @ after) \<union>
     decodedIds D (fst (V \<lparr>effectful = True, optional = False\<rparr> (code step)))"
  by (auto simp: usedVariables_union propReferences_def)

text \<open>
  C5, as stated, fails: a prop whose validation throws can contribute an id. Outside an
  action the text made of the identifier of \<^verbatim>\<open>count\<close> and \<^verbatim>\<open> + (b = 1)\<close> is rejected for
  its assignment, after the identifier was handed to the callback; the callback has added
  \<^verbatim>\<open>count\<close> by then and the empty \<^verbatim>\<open>catch\<close> block takes nothing back.
\<close>

theorem C5_throwing_prop_contributes:
  "snd (validateExpression_spec \<lparr>effectful = False, optional = False\<rparr>
          (encodeDataSourceVariable_spec ''count'' @ '' + (b = 1)'')) =
     Inl ''Assignment is supported only inside actions'' \<and>
   usedVariables validateExpression_spec decodeDataSourceVariable_spec
     [(''p1'', Expression (encodeDataSourceVariable_spec ''count'' @ '' + (b = 1)''))] =
     {''count''}"
  by (simp add: usedVariables_def scanProp_def validateCollecting_def addUsedVariable_def
        validateExpression_spec_def decodeDataSourceVariable_spec_def
        encodeDataSourceVariable_spec_def)

text \<open>
  C5, amended. The used-variables set is the union, over all props of the snapshot, of the
  variable ids decoded from the identifiers handed to the callback while validating the
  text of each expression prop and each step of each action prop (with
  \<^verbatim>\<open>effectful = true\<close>), whether that validation returns or throws. So a prop, or a step,
  whose validation throws contributes the ids of the identifiers met before the throw, none
  when none was met, and the props and steps before and after it are scanned all the same.
\<close>

theorem C5_used_variables:
  "usedVariables V D props = (\<Union>p \<in> snd ` set props. propReferences V D p) \<and>
   usedVariables V D (before @ [(key, Expression text)] @ after) =
     usedVariables V D before \<union>
     decodedIds D (fst (V \<lparr>effectful = False, optional = False\<rparr> text)) \<union>
     usedVariables V D after \<and>
   usedVariables V D (before @ [(key, Action (steps @ [step] @ steps'))] @ after) =
     usedVariables V D (before @ [(key, Action (steps @ steps'))] @ after) \<union>
     decodedIds D (fst (V \<lparr>effectful = True, optional = False\<rparr> (code step))) \<and>
   (fst (V \<lparr>effectful = False, optional = False\<rparr> text) = [] \<longrightarrow>
      usedVariables V D (before @ [(key, Expression text)] @ after) =
        usedVariables V D (before @ after)) \<and>
   (fst (V \<lparr>effectful = True, optional = False\<rparr> (code step)) = [] \<longrightarrow>
      usedVariables V D (before @ [(key, Action (steps @ [step] @ steps'))] @ after) =
        usedVariables V D (before @ [(key, Action (steps @ steps'))] @ after))"
proof (intro conjI impI)
  show "usedVariables V D props = (\<Union>p \<in> snd ` set props. propReferences V D p)"
    by (rule usedVariables_union)
next
  show "usedVariables V D (before @ [(key, Expression text)] @ after) =
     usedVariables V D before \<union>
     decodedIds D (fst (V \<lparr>effectful = False, optional = False\<rparr> text)) \<union>
     usedVariables V D after"
    by (rule usedVariables_expression)
next
  show "usedVariables V D (before @ [(key, Action (steps @ [step] @ steps'))] @ after) =
     usedVariables V D (before @ [(key, Action (steps @ steps'))] @ after) \<union>
     decodedIds D (fst (V \<lparr>effectful = True, optional = False\<rparr> (code step)))"
    by (rule usedVariables_action_step)
next
  assume "fst (V \<lparr>effectful = False, optional = False\<rparr> text) = []"
  then show "usedVariables V D (before @ [(key, Expression text)] @ after) =
        usedVariables V D (before @ after)"
    by (auto simp: usedVariables_union propReferences_def decodedIds_def)
next
  assume "fst (V \<lparr>effectful = True, optional = False\<rparr> (code step)) = []"
  then show "usedVariables V D (before @ [(key, Action (steps @ [step] @ steps'))] @ after) =
        usedVariables V D (before @ [(key, Action (steps @ steps'))] @ after)"
    by (auto simp: usedVariables_union propReferences_def decodedIds_def)
qed

theorem C5_used_variables_witness:
  "usedVariables validateExpression_spec decodeDataSourceVariable_spec
     [(''p1'', Expression (encodeDataSourceVariable_spec ''count'')),
      (''p2'', Expression ''1 +''),
      (''p3'', Action [\<lparr>code = ''a + 1''\<rparr>, \<lparr>code = encodeDataSourceVariable_spec ''count''\<rparr>]),
      (''p4'', Literal)] = {''count''} \<and>
   validateExpression_spec \<lparr>effectful = False, optional = False\<rparr> ''1 +'' =
     ([], Inl ''Unexpected token'') \<and>
   usedVariables validateExpression_spec decodeDataSourceVariable_spec
     ([(''p1'', Expression ''0'')] @ [(''p2'', Expression ''1 +'')] @
      [(''p3'', Expression (encodeDataSourceVariable_spec ''count''))]) =
   usedVariables validateExpression_spec decodeDataSourceVariable_spec
     ([(''p1'', Expression ''0'')] @
      [(''p3'', Expression (encodeDataSourceVariable_spec ''count''))]) \<and>
   usedVariables validateExpression_spec decodeDataSourceVariable_spec
     ([(''p1'', Expression ''0'')] @
      [(''p2'', Action ([\<lparr>code = encodeDataSourceVariable_spec ''count''\<rparr>] @
                        [\<lparr>code = ''1 +''\<rparr>] @ []))] @
      [(''p3'', Expression (encodeDataSourceVariable_spec ''count''))]) =
   usedVariables validateExpression_spec decodeDataSourceVariable_spec
     ([(''p1'', Expression ''0'')] @
      [(''p2'', Action ([\<lparr>code = encodeDataSourceVariable_spec ''count''\<rparr>] @ []))] @
      [(''p3'', Expression (encodeDataSourceVariable_spec ''count''))])"
  using C5_used_variables
      [of validateExpression_spec decodeDataSourceVariable_spec
          "[(''p1'', Expression (encodeDataSourceVariable_spec ''count'')),
            (''p2'', Expression ''1 +''),
            (''p3'', Action [\<lparr>code = ''a + 1''\<rparr>,
                             \<lparr>code = encodeDataSourceVariable_spec ''count''\<rparr>]),
            (''p4'', Literal)]"
          "[(''p1'', Expression ''0'')]" "''p2''" "''1 +''"
          "[(''p3'', Expression (encodeDataSourceVariable_spec ''count''))]"
          "[\<lparr>code = encodeDataSourceVariable_spec ''count''\<rparr>]"
          "\<lparr>code = ''1 +''\<rparr>"
          "[]"]
  by (simp add: usedVariables_def scanProp_def validateCollecting_def addUsedVariable_def
        propReferences_def decodedIds_def validateExpression_spec_def
        decodeDataSourceVariable_spec_def encodeDataSourceVariable_spec_def)

section \<open>Deleting a variable: properties\<close>

lemma ListItem_delete_onClick_cases:
  "ListItem_delete_onClick V D v stores =
     (if type' v = ''variable'' \<and> id' v \<notin> usedVariables V D (props_store stores)
      then ([], stores\<lparr>dataSources_store := AList.delete (id' v) (dataSources_store stores)\<rparr>)
      else ([], stores))"
  by (simp add: ListItem_delete_onClick_def deletable_def deleteVariable_def
        createTransaction_dataSources_def)

text \<open>
  C1, as stated, fails: a resource variable that no prop references is still not deleted.
  With no prop at all the referenced set is empty, and the delete button of a resource
  variable leaves the variables collection as it was.
\<close>

theorem C1_unreferenced_resource_not_deleted:
  "id' (Resource ''r'' (Some ''body'') ''feed'' ''res1'' :: int DataSource) \<notin>
     usedVariables validateExpression_spec decodeDataSourceVariable_spec [] \<and>
   ListItem_delete_onClick validateExpression_spec decodeDataSourceVariable_spec
     (Resource ''r'' (Some ''body'') ''feed'' ''res1'' :: int DataSource)
     \<lparr>dataSources_store = [(''r'', Resource ''r'' (Some ''body'') ''feed'' ''res1'')],
      resources_store = [(''res1'', ''https://example.com/feed'')],
      props_store = [],
      instances_store = [(''body'', \<lparr>component = ''Body''\<rparr>)],
      selectedInstanceSelector_store = Some [''body'']\<rparr> =
   ([],
    \<lparr>dataSources_store = [(''r'', Resource ''r'' (Some ''body'') ''feed'' ''res1'')],
     resources_store = [(''res1'', ''https://example.com/feed'')],
     props_store = [],
     instances_store = [(''body'', \<lparr>component = ''Body''\<rparr>)],
     selectedInstanceSelector_store = Some [''body'']\<rparr>)"
  by (simp add: ListItem_delete_onClick_def deletable_def usedVariables_def)

text \<open>
  C1, amended. The guard is the disabled delete button of the list item, and
  \<^verbatim>\<open>deleteVariable\<close> itself checks nothing. For a variable whose id is in the referenced
  set, and for every resource or parameter variable, the button does nothing: the stores
  are unchanged and no error is shown. For a value variable that no prop references (so
  also once all referencing props are removed or rewritten) the button removes the
  variable's entry from the variables collection and changes nothing else.
\<close>

theorem C1_delete_guard:
  "(id' v \<in> usedVariables V D (props_store stores) \<or> type' v \<noteq> ''variable'' \<longrightarrow>
      ListItem_delete_onClick V D v stores = ([], stores)) \<and>
   (type' v = ''variable'' \<and> id' v \<notin> usedVariables V D (props_store stores) \<longrightarrow>
      ListItem_delete_onClick V D v stores =
        ([], stores\<lparr>dataSources_store := AList.delete (id' v) (dataSources_store stores)\<rparr>) \<and>
      map_of (dataSources_store (snd (ListItem_delete_onClick V D v stores))) (id' v) = None) \<and>
   deleteVariable v stores =
     stores\<lparr>dataSources_store := AList.delete (id' v) (dataSources_store stores)\<rparr>"
  by (auto simp: ListItem_delete_onClick_cases AList.delete_conv' deleteVariable_def
        createTransaction_dataSources_def)

theorem C1_delete_guard_witness:
  "ListItem_delete_onClick validateExpression_spec decodeDataSourceVariable_spec
     (Variable ''count'' (Some ''body'') ''count'' (NumberValue (0::int)))
     \<lparr>dataSources_store = [(''count'', Variable ''count'' (Some ''body'') ''count'' (NumberValue 0))],
      resources_store = [] :: (string \<times> string) list,
      props_store = [(''p1'', Expression (encodeDataSourceVariable_spec ''count''))],
      instances_store = [(''body'', \<lparr>component = ''Body''\<rparr>)],
      selectedInstanceSelector_store = Some [''body'']\<rparr> =
   ([],
     \<lparr>dataSources_store = [(''count'', Variable ''count'' (Some ''body'') ''count'' (NumberValue 0))],
      resources_store = [],
      props_store = [(''p1'', Expression (encodeDataSourceVariable_spec ''count''))],
      instances_store = [(''body'', \<lparr>component = ''Body''\<rparr>)],
      selectedInstanceSelector_store = Some [''body'']\<rparr>) \<and>
   ListItem_delete_onClick validateExpression_spec decodeDataSourceVariable_spec
     (Variable ''count'' (Some ''body'') ''count'' (NumberValue (0::int)))
     \<lparr>dataSources_store = [(''count'', Variable ''count'' (Some ''body'') ''count'' (NumberValue 0))],
      resources_store = [] :: (string \<times> string) list,
      props_store = [],
      instances_store = [(''body'', \<lparr>component = ''Body''\<rparr>)],
      selectedInstanceSelector_store = Some [''body'']\<rparr> =
   ([],
     \<lparr>dataSources_store = [],
      resources_store = [],
      props_store = [],
      instances_store = [(''body'', \<lparr>component = ''Body''\<rparr>)],
      selectedInstanceSelector_store = Some [''body'']\<rparr>)"
  using C1_delete_guard [of "Variable ''count'' (Some ''body'') ''count'' (NumberValue (0::int))"
      validateExpression_spec decodeDataSourceVariable_spec
      "\<lparr>dataSources_store = [(''count'', Variable ''count'' (Some ''body'') ''count'' (NumberValue 0))],
        resources_store = [] :: (string \<times> string) list,
        props_store = [(''p1'', Expression (encodeDataSourceVariable_spec ''count''))],
        instances_store = [(''body'', \<lparr>component = ''Body''\<rparr>)],
        selectedInstanceSelector_store = Some [''body'']\<rparr>"]
    C1_delete_guard [of "Variable ''count'' (Some ''body'') ''count'' (NumberValue (0::int))"
      validateExpression_spec decodeDataSourceVariable_spec
      "\<lparr>dataSources_store = [(''count'', Variable ''count'' (Some ''body'') ''count'' (NumberValue 0))],
        resources_store = [] :: (string \<times> string) list,
        props_store = [],
        instances_store = [(''body'', \<lparr>component = ''Body''\<rparr>)],
        selectedInstanceSelector_store = Some [''body'']\<rparr>"]
  by (simp add: usedVariables_def scanProp_def validateCollecting_def addUsedVariable_def
        validateExpression_spec_def decodeDataSourceVariable_spec_def
        encodeDataSourceVariable_spec_def)

section \<open>Parsing and saving: properties\<close>

subsection \<open>The three ways \<^verbatim>\<open>saveVariable\<close> ends\<close>

lemma saveVariable_error:
  "result_error (parseVariableValue V E text) = Some e \<Longrightarrow>
   saveVariable V E nid ds name text stores = (Some e, stores)"
  by (simp add: saveVariable_def Let_def)

lemma saveVariable_unselected:
  "result_error (parseVariableValue V E text) = None \<Longrightarrow>
   selectedInstanceSelector_store stores = None \<Longrightarrow>
   saveVariable V E nid ds name text stores = (None, stores)"
  by (simp add: saveVariable_def Let_def)

lemma saveVariableMutator_eq:
  "saveVariableMutator ds i (firstInstanceId sel) name v dataSources resources =
     (AList.update i (Variable i (savedScope dataSources i sel) name (tagByTypeof v)) dataSources,
      (case ds of Some (Resource i' s n r) \<Rightarrow> AList.delete r resources | _ \<Rightarrow> resources))"
  by (cases v) (simp_all add: saveVariableMutator_def savedScope_def tagByTypeof_def Let_def)

lemma saveVariable_committed:
  "result_error (parseVariableValue V E text) = None \<Longrightarrow>
   selectedInstanceSelector_store stores = Some sel \<Longrightarrow>
   saveVariable V E nid ds name text stores =
     (None,
      stores\<lparr>dataSources_store :=
               AList.update (case ds of None \<Rightarrow> nid | Some d \<Rightarrow> id' d)
                 (Variable (case ds of None \<Rightarrow> nid | Some d \<Rightarrow> id' d)
                    (savedScope (dataSources_store stores)
                       (case ds of None \<Rightarrow> nid | Some d \<Rightarrow> id' d) sel)
                    name (tagByTypeof (result_value (parseVariableValue V E text))))
                 (dataSources_store stores),
             resources_store :=
               (case ds of
                  Some (Resource i' s n r) \<Rightarrow> AList.delete r (resources_store stores)
                | _ \<Rightarrow> resources_store stores)\<rparr>)"
  by (simp add: saveVariable_def Let_def createTransaction_dataSources_resources_def
        saveVariableMutator_eq)

subsection \<open>What \<^verbatim>\<open>parseVariableValue\<close> returns\<close>

lemma set_foldl_setAdd: "set (foldl setAdd acc ids) = set acc \<union> set ids"
  by (induction ids arbitrary: acc) (auto simp: setAdd_def)

lemma sublist_join: "x \<in> set xs \<Longrightarrow> sublist x (join sep xs)"
proof (induction sep xs rule: join.induct)
  case (1 sep)
  then show ?case by simp
next
  case (2 sep y)
  then show ?case by simp
next
  case (3 sep y z zs)
  show ?case
  proof (cases "x = y")
    case True
    then show ?thesis by (simp add: sublist_append_rightI)
  next
    case False
    with 3 have "sublist x (join sep (z # zs))" by simp
    then have "sublist x ((y @ sep) @ join sep (z # zs))"
      by (rule sublist_order.order.trans) (rule sublist_append_leftI)
    then show ?thesis by simp
  qed
qed

lemma sublist_message: "x \<in> set xs \<Longrightarrow> sublist x (p @ join sep xs @ q)"
  using sublist_join [of x xs sep] sublist_appendI [of "join sep xs" p q]
  by (meson sublist_order.order.trans)

lemma parseVariableValue_identifiers:
  assumes "V \<lparr>effectful = False, optional = True\<rparr> text = (ids, Inr validated)"
    and "ids \<noteq> []"
  shows "parseVariableValue V E text =
           \<lparr>result_value = JsUndefined,
            result_error = Some (''Cannot use variables '' @ join '', '' (foldl setAdd [] ids) @
                                 '' as variable value'')\<rparr>"
proof -
  from assms(2) have "set (foldl setAdd [] ids) \<noteq> {}"
    by (simp add: set_foldl_setAdd)
  then have "foldl setAdd [] ids \<noteq> []" by auto
  with assms(1) show ?thesis
    by (simp add: parseVariableValue_def Let_def)
qed

lemma parseVariableValue_thrown:
  "V \<lparr>effectful = False, optional = True\<rparr> text = (ids, Inl message) \<Longrightarrow>
   parseVariableValue V E text = \<lparr>result_value = JsUndefined, result_error = Some message\<rparr>"
  by (simp add: parseVariableValue_def)

lemma parseVariableValue_value:
  "V \<lparr>effectful = False, optional = True\<rparr> text = ([], Inr validated) \<Longrightarrow>
   E (''('' @ validated @ '')'') = Inr v \<Longrightarrow>
   parseVariableValue V E text = \<lparr>result_value = v, result_error = None\<rparr>"
  by (simp add: parseVariableValue_def)

lemma tagByTypeof_typeof:
  "(typeof v = ''string'' \<longrightarrow> (\<exists>s. v = JsString s \<and> tagByTypeof v = StringValue s)) \<and>
   (typeof v = ''number'' \<longrightarrow> (\<exists>n. v = JsNumber n \<and> tagByTypeof v = NumberValue n)) \<and>
   (typeof v = ''boolean'' \<longrightarrow> (\<exists>b. v = JsBoolean b \<and> tagByTypeof v = BooleanValue b)) \<and>
   (typeof v \<noteq> ''string'' \<and> typeof v \<noteq> ''number'' \<and> typeof v \<noteq> ''boolean'' \<longrightarrow>
      tagByTypeof v = JsonValue v)"
  by (cases v) (simp_all add: tagByTypeof_def)

subsection \<open>Converting a resource variable\<close>

lemma createTransaction_observed_all_or_nothing:
  "createTransaction_observed mutator stores = (stores', published) \<Longrightarrow>
   (mutator (dataSources_store stores) (resources_store stores) = None \<and>
    published = [] \<and> stores' = stores) \<or>
   (\<exists>dataSources resources.
      mutator (dataSources_store stores) (resources_store stores) = Some (dataSources, resources) \<and>
      published = [stores'] \<and>
      stores' = stores\<lparr>dataSources_store := dataSources, resources_store := resources\<rparr>)"
  by (auto simp: createTransaction_observed_def Let_def split: option.splits)

lemma saveVariable_observed_error:
  "result_error (parseVariableValue V E text) = Some e \<Longrightarrow>
   saveVariable_observed V E nid ds name text stores = (Some e, stores, [])"
  by (simp add: saveVariable_observed_def Let_def)

lemma saveVariable_observed_unselected:
  "result_error (parseVariableValue V E text) = None \<Longrightarrow>
   selectedInstanceSelector_store stores = None \<Longrightarrow>
   saveVariable_observed V E nid ds name text stores = (None, stores, [])"
  by (simp add: saveVariable_observed_def Let_def)

lemma saveVariable_observed_committed:
  "result_error (parseVariableValue V E text) = None \<Longrightarrow>
   selectedInstanceSelector_store stores = Some sel \<Longrightarrow>
   saveVariable_observed V E nid ds name text stores =
     (None, snd (saveVariable V E nid ds name text stores),
      [snd (saveVariable V E nid ds name text stores)])"
  by (simp add: saveVariable_observed_def saveVariable_def Let_def
        createTransaction_observed_def createTransaction_dataSources_resources_def
        split: prod.splits)

text \<open>
  C3. Converting a resource variable to a value variable deletes the resource entry and
  writes the value entry inside one transaction. Observers of the stores are shown at most
  one new state by the save, and in every state they are shown both have taken effect: the
  resource entry is gone and the variable's entry is the value variable; no state with only
  one of the two is ever published. When the text is rejected or no instance is selected,
  which is settled before the transaction is opened, nothing is published and the stores
  are exactly as before. The stores the save leaves are those of \<^verbatim>\<open>saveVariable\<close>.
\<close>

theorem C3_convert_resource_atomic:
  assumes "saveVariable_observed V E nid (Some (Resource i s n r)) name text stores =
             (result, stores', published)"
  shows "saveVariable V E nid (Some (Resource i s n r)) name text stores = (result, stores') \<and>
         (published = [] \<and> stores' = stores \<or> published = [stores']) \<and>
         (\<forall>observed \<in> set published.
            map_of (resources_store observed) r = None \<and>
            (\<exists>scope.
               map_of (dataSources_store observed) i =
                 Some (Variable i scope name
                         (tagByTypeof (result_value (parseVariableValue V E text)))))) \<and>
         (published = [] \<longleftrightarrow>
            result_error (parseVariableValue V E text) \<noteq> None \<or>
            selectedInstanceSelector_store stores = None)"
proof (cases "result_error (parseVariableValue V E text)")
  case (Some e)
  with assms have "result = Some e \<and> stores' = stores \<and> published = []"
    by (simp add: saveVariable_observed_error)
  with Some show ?thesis
    by (simp add: saveVariable_error)
next
  case None
  show ?thesis
  proof (cases "selectedInstanceSelector_store stores")
    case unselected: None
    with None assms have "result = None \<and> stores' = stores \<and> published = []"
      by (simp add: saveVariable_observed_unselected)
    with None unselected show ?thesis
      by (simp add: saveVariable_unselected)
  next
    case (Some sel)
    let ?committed =
      "stores\<lparr>dataSources_store :=
                AList.update i
                  (Variable i (savedScope (dataSources_store stores) i sel) name
                     (tagByTypeof (result_value (parseVariableValue V E text))))
                  (dataSources_store stores),
              resources_store := AList.delete r (resources_store stores)\<rparr>"
    from None Some have saved:
      "saveVariable V E nid (Some (Resource i s n r)) name text stores = (None, ?committed)"
      by (simp add: saveVariable_committed)
    from None Some saved have observed:
      "saveVariable_observed V E nid (Some (Resource i s n r)) name text stores =
         (None, ?committed, [?committed])"
      by (simp add: saveVariable_observed_committed)
    from assms [symmetric] observed have both:
      "(result, stores', published) = (None, ?committed, [?committed])"
      by (rule trans)
    from both have result: "result = None" by simp
    from both have stores': "stores' = ?committed" by simp
    from both have "published = [?committed]" by simp
    then have published: "published = [stores']"
      by (simp only: stores')
    have deleted: "map_of (resources_store stores') r = None"
      by (simp add: stores' AList.delete_conv')
    have written: "map_of (dataSources_store stores') i =
        Some (Variable i (savedScope (dataSources_store stores) i sel) name
                (tagByTypeof (result_value (parseVariableValue V E text))))"
      by (simp add: stores' AList.update_conv')
    have "saveVariable V E nid (Some (Resource i s n r)) name text stores = (result, stores')"
      using saved by (simp add: result stores')
    then show ?thesis
      using None Some deleted written by (simp add: published)
  qed
qed

theorem C3_convert_resource_atomic_witness:
  "saveVariable_observed validateExpression_spec eval_spec ''v1''
     (Some (Resource ''feed'' (Some ''body'') ''feed'' ''res1'')) ''feed'' ''0''
     \<lparr>dataSources_store = [(''feed'', Resource ''feed'' (Some ''body'') ''feed'' ''res1'')],
      resources_store = [(''res1'', ''https://example.com/feed'')],
      props_store = [],
      instances_store = [],
      selectedInstanceSelector_store = Some [''box'', ''body'']\<rparr> =
   (None,
    \<lparr>dataSources_store = [(''feed'', Variable ''feed'' (Some ''body'') ''feed'' (NumberValue 0))],
     resources_store = [],
     props_store = [],
     instances_store = [],
     selectedInstanceSelector_store = Some [''box'', ''body'']\<rparr>,
    [\<lparr>dataSources_store = [(''feed'', Variable ''feed'' (Some ''body'') ''feed'' (NumberValue 0))],
      resources_store = [],
      props_store = [],
      instances_store = [],
      selectedInstanceSelector_store = Some [''box'', ''body'']\<rparr>]) \<and>
   saveVariable validateExpression_spec eval_spec ''v1''
     (Some (Resource ''feed'' (Some ''body'') ''feed'' ''res1'')) ''feed'' ''0''
     \<lparr>dataSources_store = [(''feed'', Resource ''feed'' (Some ''body'') ''feed'' ''res1'')],
      resources_store = [(''res1'', ''https://example.com/feed'')],
      props_store = [],
      instances_store = [],
      selectedInstanceSelector_store = Some [''box'', ''body'']\<rparr> =
   (None,
    \<lparr>dataSources_store = [(''feed'', Variable ''feed'' (Some ''body'') ''feed'' (NumberValue 0))],
     resources_store = [],
     props_store = [],
     instances_store = [],
     selectedInstanceSelector_store = Some [''box'', ''body'']\<rparr>)"
proof -
  have observed:
    "saveVariable_observed validateExpression_spec eval_spec ''v1''
       (Some (Resource ''feed'' (Some ''body'') ''feed'' ''res1'')) ''feed'' ''0''
       \<lparr>dataSources_store = [(''feed'', Resource ''feed'' (Some ''body'') ''feed'' ''res1'')],
        resources_store = [(''res1'', ''https://example.com/feed'')],
        props_store = [],
        instances_store = [],
        selectedInstanceSelector_store = Some [''box'', ''body'']\<rparr> =
     (None,
      \<lparr>dataSources_store = [(''feed'', Variable ''feed'' (Some ''body'') ''feed'' (NumberValue 0))],
       resources_store = [],
       props_store = [],
       instances_store = [],
       selectedInstanceSelector_store = Some [''box'', ''body'']\<rparr>,
      [\<lparr>dataSources_store = [(''feed'', Variable ''feed'' (Some ''body'') ''feed'' (NumberValue 0))],
        resources_store = [],
        props_store = [],
        instances_store = [],
        selectedInstanceSelector_store = Some [''box'', ''body'']\<rparr>])"
    by (simp add: saveVariable_observed_def createTransaction_observed_def
          saveVariableMutator_def parseVariableValue_def validateExpression_spec_def
          eval_spec_def firstInstanceId_def Let_def)
  from C3_convert_resource_atomic [OF observed] observed show ?thesis
    by simp
qed

subsection \<open>A value that depends on variables\<close>

text \<open>
  C4, as stated, fails: the error need not name the identifiers collected. As a value
  text, the identifier of \<^verbatim>\<open>count\<close> followed by \<^verbatim>\<open> + (b = 1)\<close> has its identifier
  collected and is then rejected by the validator for the assignment; the error returned
  is the validator's message, which does not contain the identifier.
\<close>

theorem C4_thrown_message_names_no_identifier:
  "fst (validateExpression_spec \<lparr>effectful = False, optional = True\<rparr>
          (encodeDataSourceVariable_spec ''count'' @ '' + (b = 1)'')) =
     [encodeDataSourceVariable_spec ''count''] \<and>
   result_error (parseVariableValue validateExpression_spec eval_spec
                   (encodeDataSourceVariable_spec ''count'' @ '' + (b = 1)'')) =
     Some ''Assignment is supported only inside actions'' \<and>
   \<not> sublist (encodeDataSourceVariable_spec ''count'')
        ''Assignment is supported only inside actions''"
proof -
  have "\<not> sublist (encodeDataSourceVariable_spec ''count'')
          ''Assignment is supported only inside actions''"
    by code_simp
  then show ?thesis
    by (simp add: parseVariableValue_def validateExpression_spec_def
          encodeDataSourceVariable_spec_def)
qed

text \<open>
  C4, amended. For every value text whose validation collects at least one identifier, no
  value is produced, an error is, and \<^verbatim>\<open>saveVariable\<close> returns it with every store
  unchanged. When the validator returns, the error is
  \<^verbatim>\<open>Cannot use variables ... as variable value\<close> with the collected identifiers joined
  by a comma, and so names each of them (\<^verbatim>\<open>a + 1\<close> fails naming \<^verbatim>\<open>a\<close>). When the
  validator itself throws, the error is the message it threw.
\<close>

theorem C4_identifiers_block_value:
  assumes "fst (V \<lparr>effectful = False, optional = True\<rparr> text) \<noteq> []"
  shows "result_value (parseVariableValue V E text) = JsUndefined \<and>
         (\<exists>message. result_error (parseVariableValue V E text) = Some message \<and>
                    saveVariable V E nid ds name text stores = (Some message, stores)) \<and>
         (\<forall>validated. snd (V \<lparr>effectful = False, optional = True\<rparr> text) = Inr validated \<longrightarrow>
            (\<exists>message.
               result_error (parseVariableValue V E text) = Some message \<and>
               message = ''Cannot use variables '' @
                         join '', ''
                           (foldl setAdd [] (fst (V \<lparr>effectful = False, optional = True\<rparr> text))) @
                         '' as variable value'' \<and>
               (\<forall>identifier \<in> set (fst (V \<lparr>effectful = False, optional = True\<rparr> text)).
                  sublist identifier message))) \<and>
         (\<forall>thrown. snd (V \<lparr>effectful = False, optional = True\<rparr> text) = Inl thrown \<longrightarrow>
            result_error (parseVariableValue V E text) = Some thrown)"
proof (cases "V \<lparr>effectful = False, optional = True\<rparr> text")
  case (Pair ids outcome)
  with assms have nonempty: "ids \<noteq> []" by simp
  show ?thesis
  proof (cases outcome)
    case (Inl message)
    with Pair have parsed: "parseVariableValue V E text =
        \<lparr>result_value = JsUndefined, result_error = Some message\<rparr>"
      by (simp add: parseVariableValue_thrown)
    show ?thesis
      using Pair Inl by (simp add: parsed saveVariable_error)
  next
    case (Inr validated)
    with Pair nonempty have parsed: "parseVariableValue V E text =
           \<lparr>result_value = JsUndefined,
            result_error = Some (''Cannot use variables '' @ join '', '' (foldl setAdd [] ids) @
                                 '' as variable value'')\<rparr>"
      by (simp add: parseVariableValue_identifiers)
    have "\<forall>x \<in> set ids.
            sublist x (''Cannot use variables '' @ join '', '' (foldl setAdd [] ids) @
                                 '' as variable value'')"
    proof
      fix x
      assume "x \<in> set ids"
      then have "x \<in> set (foldl setAdd [] ids)"
        by (simp add: set_foldl_setAdd)
      then show "sublist x (''Cannot use variables '' @ join '', '' (foldl setAdd [] ids) @
                                 '' as variable value'')"
        by (rule sublist_message)
    qed
    then show ?thesis
      using Pair Inr by (simp add: parsed saveVariable_error)
  qed
qed

theorem C4_identifiers_block_value_witness:
  "parseVariableValue validateExpression_spec eval_spec ''a + 1'' =
     \<lparr>result_value = JsUndefined,
      result_error = Some ''Cannot use variables a as variable value''\<rparr> \<and>
   sublist ''a'' ''Cannot use variables a as variable value'' \<and>
   saveVariable validateExpression_spec eval_spec ''v1'' None ''count'' ''a + 1''
     \<lparr>dataSources_store = [] :: (string \<times> int DataSource) list,
      resources_store = [] :: (string \<times> string) list,
      props_store = [],
      instances_store = [],
      selectedInstanceSelector_store = Some [''body'']\<rparr> =
   (Some ''Cannot use variables a as variable value'',
     \<lparr>dataSources_store = [],
      resources_store = [],
      props_store = [],
      instances_store = [],
      selectedInstanceSelector_store = Some [''body'']\<rparr>)"
  using C4_identifiers_block_value [of validateExpression_spec "''a + 1''" eval_spec "''v1''" None
      "''count''"
      "\<lparr>dataSources_store = [] :: (string \<times> int DataSource) list,
        resources_store = [] :: (string \<times> string) list,
        props_store = [],
        instances_store = [],
        selectedInstanceSelector_store = Some [''body'']\<rparr>"]
  by (auto simp: validateExpression_spec_def setAdd_def Result.equality)

subsection \<open>The stored value\<close>

text \<open>
  C7. When saving a value variable succeeds (the text gives a value and an instance is
  selected), the entry written is a value variable whose value is tagged by the runtime
  type of the evaluated literal: a string is stored string-typed, a number number-typed, a
  boolean boolean-typed, and anything else as json. In particular, where the text \<^verbatim>\<open>0\<close>
  validates to itself and evaluates to the number zero, the number zero is stored.
\<close>

theorem C7_saved_value_tagged_by_type:
  assumes "result_error (parseVariableValue V E text) = None"
    and "selectedInstanceSelector_store stores = Some sel"
  shows "\<exists>scope stored.
           map_of (dataSources_store (snd (saveVariable V E nid ds name text stores)))
             (case ds of None \<Rightarrow> nid | Some d \<Rightarrow> id' d) =
             Some (Variable (case ds of None \<Rightarrow> nid | Some d \<Rightarrow> id' d) scope name stored) \<and>
           stored = tagByTypeof (result_value (parseVariableValue V E text)) \<and>
           (typeof (result_value (parseVariableValue V E text)) = ''string'' \<longrightarrow>
              (\<exists>s. result_value (parseVariableValue V E text) = JsString s \<and>
                   stored = StringValue s)) \<and>
           (typeof (result_value (parseVariableValue V E text)) = ''number'' \<longrightarrow>
              (\<exists>n. result_value (parseVariableValue V E text) = JsNumber n \<and>
                   stored = NumberValue n)) \<and>
           (typeof (result_value (parseVariableValue V E text)) = ''boolean'' \<longrightarrow>
              (\<exists>b. result_value (parseVariableValue V E text) = JsBoolean b \<and>
                   stored = BooleanValue b)) \<and>
           (typeof (result_value (parseVariableValue V E text)) \<noteq> ''string'' \<and>
            typeof (result_value (parseVariableValue V E text)) \<noteq> ''number'' \<and>
            typeof (result_value (parseVariableValue V E text)) \<noteq> ''boolean'' \<longrightarrow>
              stored = JsonValue (result_value (parseVariableValue V E text))) \<and>
           (text = ''0'' \<longrightarrow>
              (\<forall>zero. V \<lparr>effectful = False, optional = True\<rparr> ''0'' = ([], Inr ''0'') \<and>
                      E ''(0)'' = Inr (JsNumber zero) \<longrightarrow> stored = NumberValue zero))"
proof -
  let ?i = "case ds of None \<Rightarrow> nid | Some d \<Rightarrow> id' d"
  let ?v = "result_value (parseVariableValue V E text)"
  have written:
    "map_of (dataSources_store (snd (saveVariable V E nid ds name text stores))) ?i =
        Some (Variable ?i (savedScope (dataSources_store stores) ?i sel) name (tagByTypeof ?v))"
    using assms by (simp add: saveVariable_committed AList.update_conv')
  have zero: "text = ''0'' \<longrightarrow>
        (\<forall>zero. V \<lparr>effectful = False, optional = True\<rparr> ''0'' = ([], Inr ''0'') \<and>
                E ''(0)'' = Inr (JsNumber zero) \<longrightarrow> tagByTypeof ?v = NumberValue zero)"
  proof (intro impI allI)
    fix zero
    assume t: "text = ''0''"
      and "V \<lparr>effectful = False, optional = True\<rparr> ''0'' = ([], Inr ''0'') \<and>
           E ''(0)'' = Inr (JsNumber zero)"
    then have "parseVariableValue V E ''0'' =
                 \<lparr>result_value = JsNumber zero, result_error = None\<rparr>"
      using parseVariableValue_value [of V "''0''" "''0''" E "JsNumber zero"] by simp
    with t show "tagByTypeof ?v = NumberValue zero"
      by (simp add: tagByTypeof_def)
  qed
  show ?thesis
    using written zero tagByTypeof_typeof [of ?v] by blast
qed

theorem C7_saved_value_tagged_by_type_witness:
  "map_of (dataSources_store (snd (saveVariable validateExpression_spec eval_spec ''v1'' None
      ''count'' ''0''
      \<lparr>dataSources_store = [],
       resources_store = [] :: (string \<times> string) list,
       props_store = [],
       instances_store = [(''body'', \<lparr>component = ''Body''\<rparr>)],
       selectedInstanceSelector_store = Some [''body'']\<rparr>))) ''v1'' =
   Some (Variable ''v1'' (Some ''body'') ''count'' (NumberValue 0))"
  using C7_saved_value_tagged_by_type [of validateExpression_spec eval_spec "''0''"
      "\<lparr>dataSources_store = [],
        resources_store = [] :: (string \<times> string) list,
        props_store = [],
        instances_store = [(''body'', \<lparr>component = ''Body''\<rparr>)],
        selectedInstanceSelector_store = Some [''body'']\<rparr>" "[''body'']" "''v1''" None "''count''"]
  by (simp add: parseVariableValue_def validateExpression_spec_def eval_spec_def
        saveVariable_def createTransaction_dataSources_resources_def saveVariableMutator_def
        firstInstanceId_def tagByTypeof_def Let_def)

subsection \<open>The text \<^verbatim>\<open>{}\<close>\<close>

text \<open>
  C8. The text \<^verbatim>\<open>{}\<close> is evaluated in parentheses: where the validator accepts it as it
  is, with no identifier, and \<^verbatim>\<open>({})\<close> evaluates to the empty object, the value is the
  empty object and there is no error, whatever the bare block \<^verbatim>\<open>{}\<close> would evaluate to;
  the value is not \<^verbatim>\<open>undefined\<close>.
\<close>

theorem C8_braces_evaluate_as_object:
  assumes "V \<lparr>effectful = False, optional = True\<rparr> ''{}'' = ([], Inr ''{}'')"
    and "E ''({})'' = Inr (JsObject [])"
  shows "parseVariableValue V E ''{}'' = \<lparr>result_value = JsObject [], result_error = None\<rparr> \<and>
         result_value (parseVariableValue V E ''{}'') \<noteq> JsUndefined"
  using parseVariableValue_value [of V "''{}''" "''{}''" E "JsObject []"] assms by simp

theorem C8_braces_evaluate_as_object_witness:
  "parseVariableValue validateExpression_spec eval_spec ''{}'' =
     \<lparr>result_value = JsObject [], result_error = None\<rparr> \<and>
   eval_spec ''{}'' = Inr JsUndefined"
  using C8_braces_evaluate_as_object [of validateExpression_spec eval_spec]
  by (simp add: validateExpression_spec_def eval_spec_def)

subsection \<open>Saving with no instance selected\<close>

text \<open>
  C10, as stated, fails: with no instance selected, \<^verbatim>\<open>saveVariable\<close> on the text
  \<^verbatim>\<open>a + 1\<close> returns an error, not \<^verbatim>\<open>undefined\<close>, because the text is parsed before the
  selector is read.
\<close>

theorem C10_unselected_returns_error:
  "selectedInstanceSelector_store
     \<lparr>dataSources_store = [] :: (string \<times> int DataSource) list,
      resources_store = [] :: (string \<times> string) list,
      props_store = [],
      instances_store = [],
      selectedInstanceSelector_store = None\<rparr> = None \<and>
   fst (saveVariable validateExpression_spec eval_spec ''v1'' None ''count'' ''a + 1''
     \<lparr>dataSources_store = [] :: (string \<times> int DataSource) list,
      resources_store = [] :: (string \<times> string) list,
      props_store = [],
      instances_store = [],
      selectedInstanceSelector_store = None\<rparr>) =
   Some ''Cannot use variables a as variable value''"
  by (simp add: saveVariable_def parseVariableValue_def validateExpression_spec_def setAdd_def)

text \<open>
  C10, amended. If no instance is selected, \<^verbatim>\<open>saveVariable\<close> mutates no collection and
  returns what parsing the text returns as error. So when the text parses without error it
  returns \<^verbatim>\<open>undefined\<close>, the result a committed save of the same text returns as well.
\<close>

theorem C10_unselected_save_is_silent:
  assumes "selectedInstanceSelector_store stores = None"
  shows "snd (saveVariable V E nid ds name text stores) = stores \<and>
         fst (saveVariable V E nid ds name text stores) =
           result_error (parseVariableValue V E text) \<and>
         (result_error (parseVariableValue V E text) = None \<longrightarrow>
            fst (saveVariable V E nid ds name text stores) = None \<and>
            fst (saveVariable V E nid ds name text
                   (stores\<lparr>selectedInstanceSelector_store := Some sel\<rparr>)) = None)"
proof (cases "result_error (parseVariableValue V E text)")
  case None
  then show ?thesis
    using assms
    by (simp add: saveVariable_unselected saveVariable_committed [where sel = sel])
next
  case (Some e)
  then show ?thesis by (simp add: saveVariable_error)
qed

theorem C10_unselected_save_is_silent_witness:
  "saveVariable validateExpression_spec eval_spec ''v1'' None ''count'' ''0''
     \<lparr>dataSources_store = [] :: (string \<times> int DataSource) list,
      resources_store = [] :: (string \<times> string) list,
      props_store = [],
      instances_store = [],
      selectedInstanceSelector_store = None\<rparr> =
   (None,
     \<lparr>dataSources_store = [],
      resources_store = [],
      props_store = [],
      instances_store = [],
      selectedInstanceSelector_store = None\<rparr>)"
  using C10_unselected_save_is_silent [of
     "\<lparr>dataSources_store = [] :: (string \<times> int DataSource) list,
      resources_store = [] :: (string \<times> string) list,
      props_store = [],
      instances_store = [],
      selectedInstanceSelector_store = None\<rparr>" validateExpression_spec eval_spec "''v1''" None
      "''count''" "''0''" "[''body'']"]
  by (simp add: parseVariableValue_def validateExpression_spec_def eval_spec_def prod_eq_iff)

section \<open>The Save button on a parameter\<close>

lemma renameVariable_parameter:
  "renameVariable (Parameter i s n) name stores =
     stores\<lparr>dataSources_store := AList.update i (Parameter i s name) (dataSources_store stores)\<rparr>"
  by (simp add: renameVariable_def createTransaction_dataSources_def)

text \<open>
  After \<^verbatim>\<open>renameVariable\<close> the handler does not return: it goes on to
  \<^verbatim>\<open>saveVariable\<close>. Whenever the value text of the panel parses and an instance is
  selected, the entry of the parameter is overwritten by a value variable.
\<close>

lemma Save_onClick_parameter:
  assumes "name \<noteq> []"
    and "result_error (parseVariableValue V E text) = None"
    and "selectedInstanceSelector_store stores = Some sel"
  shows "fst (Save_onClick V E nid (Some (Parameter i s n)) name text stores) =
           [OnCancel, OnCancel] \<and>
         map_of (dataSources_store
                   (snd (Save_onClick V E nid (Some (Parameter i s n)) name text stores))) i =
           Some (Variable i (case s of None \<Rightarrow> firstInstanceId sel | Some scope \<Rightarrow> Some scope)
                   name (tagByTypeof (result_value (parseVariableValue V E text))))"
  using assms
  by (simp add: Save_onClick_def renameVariable_parameter saveVariable_committed
        AList.update_conv' savedScope_def)

text \<open>
  C6 does not hold of the code. The parameter \<^verbatim>\<open>item\<close> of a collection is edited from
  an instance inside the collection and saved under the new name \<^verbatim>\<open>element\<close>, with the
  value text of the panel at \<^verbatim>\<open>""\<close>. The save leaves in the variables collection a value
  variable with the string value \<^verbatim>\<open>""\<close> where the parameter was: its kind has changed
  and a value was written.
\<close>

theorem C6_parameter_save_writes_value:
  \<open>Save_onClick validateExpression_spec eval_spec ''v1''
     (Some (Parameter ''p'' (Some ''list'') ''item'')) ''element'' ''""''
     \<lparr>dataSources_store = [(''p'', Parameter ''p'' (Some ''list'') ''item'')],
      resources_store = [] :: (string \<times> string) list,
      props_store = [],
      instances_store = [(''list'', \<lparr>component = ''ws:collection''\<rparr>),
                         (''box'', \<lparr>component = ''Box''\<rparr>)],
      selectedInstanceSelector_store = Some [''box'', ''list'']\<rparr> =
   ([OnCancel, OnCancel],
    \<lparr>dataSources_store = [(''p'', Variable ''p'' (Some ''list'') ''element'' (StringValue []))],
     resources_store = [],
     props_store = [],
     instances_store = [(''list'', \<lparr>component = ''ws:collection''\<rparr>),
                        (''box'', \<lparr>component = ''Box''\<rparr>)],
     selectedInstanceSelector_store = Some [''box'', ''list'']\<rparr>)\<close>
  by (simp add: Save_onClick_def renameVariable_parameter saveVariable_def
        parseVariableValue_def validateExpression_spec_def eval_spec_def
        createTransaction_dataSources_resources_def saveVariableMutator_def
        firstInstanceId_def Let_def)

end
